theory Spec2Isabelle
  imports Main
begin

section \<open>Python values, errors and the clock\<close>

text \<open>
  The status classes of \<^verbatim>\<open>eta/core/status.py\<close> store whatever value they are handed:
  no field is type-checked. A field therefore holds a Python value of the kind a JSON
  document can carry. A dictionary is an association list in key order.
\<close>

datatype pyval =
    PNone
  | PBool bool
  | PInt int
  | PStr string
  | PList "pyval list"
  | PDict "(string \<times> pyval) list"

datatype error =
    KeyError string
  | TypeError
  | IndexError
  | AttributeError
  | Raised string

text \<open>Truth value of a Python value, as \<^verbatim>\<open>or\<close> and \<^verbatim>\<open>if\<close> test it.\<close>

fun truthy :: "pyval \<Rightarrow> bool" where
  "truthy PNone = False"
| "truthy (PBool b) = b"
| "truthy (PInt i) = (i \<noteq> 0)"
| "truthy (PStr s) = (s \<noteq> [])"
| "truthy (PList xs) = (xs \<noteq> [])"
| "truthy (PDict kvs) = (kvs \<noteq> [])"

text \<open>
  \<^verbatim>\<open>d[k]\<close> with a string key: a dictionary without the key raises KeyError, and every
  other kind of value raises TypeError.
\<close>

fun getitem :: "pyval \<Rightarrow> string \<Rightarrow> error + pyval" where
  "getitem (PDict kvs) k =
     (case map_of kvs k of None \<Rightarrow> Inl (KeyError k) | Some v \<Rightarrow> Inr v)"
| "getitem v k = Inl TypeError"

text \<open>
  \<^verbatim>\<open>for _d in v\<close>: a list yields its elements, a dictionary its keys, a string its
  characters; nothing else can be iterated.
\<close>

fun iterate :: "pyval \<Rightarrow> error + pyval list" where
  "iterate (PList xs) = Inr xs"
| "iterate (PDict kvs) = Inr (map (\<lambda>kv. PStr (fst kv)) kvs)"
| "iterate (PStr s) = Inr (map (\<lambda>c. PStr [c]) s)"
| "iterate v = Inl TypeError"

text \<open>Sequencing of calls that may raise.\<close>

fun bind_err :: "error + 'a \<Rightarrow> ('a \<Rightarrow> error + 'b) \<Rightarrow> error + 'b" where
  "bind_err (Inl e) f = Inl e"
| "bind_err (Inr v) f = f v"

text \<open>A keyword argument with a default: \<open>None\<close> is the omitted argument.\<close>

fun arg_or :: "pyval option \<Rightarrow> pyval \<Rightarrow> pyval" where
  "arg_or None dflt = dflt"
| "arg_or (Some v) dflt = v"

text \<open>
  Modelled from the spec: \<^verbatim>\<open>eta.core.utils.get_isotime\<close> is not among the sources. The
  spec calls it the current wall-clock time rendered as ISO-8601 text. The texts the clock
  gives are a parameter \<open>clk\<close>: \<open>clk t\<close> is the text of reading number \<open>t\<close>, and
  every reading advances the count.
\<close>

type_synonym clock = "nat \<Rightarrow> string"

definition get_isotime :: "clock \<Rightarrow> nat \<Rightarrow> pyval \<times> nat" where
  "get_isotime clk t = (PStr (clk t), Suc t)"

section \<open>StatusMessage\<close>

record StatusMessage =
  message :: pyval
  time :: pyval

text \<open>\<^verbatim>\<open>self.time = time or etau.get_isotime()\<close>: the clock is read only when \<open>time\<close> is falsy.\<close>

definition StatusMessage_init :: "clock \<Rightarrow> pyval \<Rightarrow> pyval \<Rightarrow> nat \<Rightarrow> StatusMessage \<times> nat" where
  "StatusMessage_init clk msg tm t =
     (if truthy tm then (\<lparr>message = msg, time = tm\<rparr>, t)
      else (let (now, t') = get_isotime clk t in (\<lparr>message = msg, time = now\<rparr>, t')))"

definition StatusMessage_attributes :: "string list" where
  "StatusMessage_attributes = [''message'', ''time'']"

definition StatusMessage_from_dict :: "clock \<Rightarrow> pyval \<Rightarrow> nat \<Rightarrow> error + StatusMessage \<times> nat" where
  "StatusMessage_from_dict clk d t =
     bind_err (getitem d ''message'') (\<lambda>msg.
     bind_err (getitem d ''time'') (\<lambda>tm.
     Inr (StatusMessage_init clk msg tm t)))"

section \<open>JobStatus\<close>

definition JobState_READY :: pyval where "JobState_READY = PStr ''READY''"
definition JobState_QUEUED :: pyval where "JobState_QUEUED = PStr ''QUEUED''"
definition JobState_SKIPPED :: pyval where "JobState_SKIPPED = PStr ''SKIPPED''"
definition JobState_RUNNING :: pyval where "JobState_RUNNING = PStr ''RUNNING''"
definition JobState_FAILED :: pyval where "JobState_FAILED = PStr ''FAILED''"
definition JobState_COMPLETE :: pyval where "JobState_COMPLETE = PStr ''COMPLETE''"

record JobStatus =
  name :: pyval
  state :: pyval
  start_time :: pyval
  complete_time :: pyval
  fail_time :: pyval
  messages :: "StatusMessage list"

definition JobStatus_init :: "pyval \<Rightarrow> JobStatus" where
  "JobStatus_init nm =
     \<lparr>JobStatus.name = nm, state = JobState_QUEUED, start_time = PNone,
      complete_time = PNone, fail_time = PNone, messages = []\<rparr>"

text \<open>
  A method of a job is a function of the object and the clock's count; it gives the value
  the call returns and the object after the call. A method without a \<^verbatim>\<open>return\<close>
  statement returns \<open>PNone\<close>.
\<close>

definition JobStatus_add_message ::
  "clock \<Rightarrow> pyval \<Rightarrow> JobStatus \<times> nat \<Rightarrow> pyval \<times> JobStatus \<times> nat" where
  "JobStatus_add_message clk msg s =
     (let (self, t) = s;
          (status_message, t') = StatusMessage_init clk msg PNone t;
          self = self\<lparr>JobStatus.messages := JobStatus.messages self @ [status_message]\<rparr>
      in (time status_message, self, t'))"

definition JobStatus_skip ::
  "clock \<Rightarrow> pyval option \<Rightarrow> JobStatus \<times> nat \<Rightarrow> pyval \<times> JobStatus \<times> nat" where
  "JobStatus_skip clk msg s =
     (let (r, self, t) = JobStatus_add_message clk (arg_or msg (PStr ''Job skipped'')) s;
          self = self\<lparr>JobStatus.state := JobState_SKIPPED\<rparr>
      in (PNone, self, t))"

definition JobStatus_start ::
  "clock \<Rightarrow> pyval option \<Rightarrow> JobStatus \<times> nat \<Rightarrow> pyval \<times> JobStatus \<times> nat" where
  "JobStatus_start clk msg s =
     (let (r, self, t) = JobStatus_add_message clk (arg_or msg (PStr ''Job started'')) s;
          self = self\<lparr>JobStatus.start_time := r\<rparr>;
          self = self\<lparr>JobStatus.state := JobState_RUNNING\<rparr>
      in (PNone, self, t))"

definition JobStatus_complete ::
  "clock \<Rightarrow> pyval option \<Rightarrow> JobStatus \<times> nat \<Rightarrow> pyval \<times> JobStatus \<times> nat" where
  "JobStatus_complete clk msg s =
     (let (r, self, t) = JobStatus_add_message clk (arg_or msg (PStr ''Job completed'')) s;
          self = self\<lparr>JobStatus.complete_time := r\<rparr>;
          self = self\<lparr>JobStatus.state := JobState_COMPLETE\<rparr>
      in (PNone, self, t))"

definition JobStatus_fail ::
  "clock \<Rightarrow> pyval option \<Rightarrow> JobStatus \<times> nat \<Rightarrow> pyval \<times> JobStatus \<times> nat" where
  "JobStatus_fail clk msg s =
     (let (r, self, t) = JobStatus_add_message clk (arg_or msg (PStr ''Job failed'')) s;
          self = self\<lparr>JobStatus.fail_time := r\<rparr>;
          self = self\<lparr>JobStatus.state := JobState_FAILED\<rparr>
      in (PNone, self, t))"

definition JobStatus_attributes :: "string list" where
  "JobStatus_attributes =
     [''name'', ''state'', ''start_time'', ''complete_time'', ''fail_time'', ''messages'']"

text \<open>
  The list comprehension \<^verbatim>\<open>[StatusMessage.from_dict(_d) for _d in ...]\<close>: the elements are
  reconstructed left to right and the first error ends the comprehension.
\<close>

fun StatusMessage_from_dicts ::
  "clock \<Rightarrow> pyval list \<Rightarrow> nat \<Rightarrow> error + StatusMessage list \<times> nat" where
  "StatusMessage_from_dicts clk [] t = Inr ([], t)"
| "StatusMessage_from_dicts clk (d # ds) t =
     bind_err (StatusMessage_from_dict clk d t) (\<lambda>(m, t').
     bind_err (StatusMessage_from_dicts clk ds t') (\<lambda>(ms, t'').
     Inr (m # ms, t'')))"

definition JobStatus_from_dict :: "clock \<Rightarrow> pyval \<Rightarrow> nat \<Rightarrow> error + JobStatus \<times> nat" where
  "JobStatus_from_dict clk d t =
     bind_err (getitem d ''name'') (\<lambda>nm.
     let job_status = JobStatus_init nm in
     bind_err (getitem d ''state'') (\<lambda>v.
     let job_status = job_status\<lparr>JobStatus.state := v\<rparr> in
     bind_err (getitem d ''start_time'') (\<lambda>v.
     let job_status = job_status\<lparr>JobStatus.start_time := v\<rparr> in
     bind_err (getitem d ''complete_time'') (\<lambda>v.
     let job_status = job_status\<lparr>JobStatus.complete_time := v\<rparr> in
     bind_err (getitem d ''fail_time'') (\<lambda>v.
     let job_status = job_status\<lparr>JobStatus.fail_time := v\<rparr> in
     bind_err (getitem d ''messages'') (\<lambda>v.
     bind_err (iterate v) (\<lambda>ds.
     bind_err (StatusMessage_from_dicts clk ds t) (\<lambda>(ms, t').
     Inr (job_status\<lparr>JobStatus.messages := ms\<rparr>, t')))))))))"

section \<open>The store of job objects\<close>

text \<open>
  \<^verbatim>\<open>add_job\<close> puts one and the same JobStatus object into \<^verbatim>\<open>self._active_job\<close> and
  into \<^verbatim>\<open>self.jobs\<close>, and callers mutate it through either. Job objects therefore live
  in a store, and a pipeline holds references (addresses of the store). Objects are never
  freed; a new object takes the next free address. The world is the store together with
  the count of clock readings.
\<close>

record world =
  heap :: "JobStatus list"
  ticks :: nat

definition new_job :: "JobStatus \<Rightarrow> JobStatus list \<Rightarrow> nat \<times> JobStatus list" where
  "new_job j h = (length h, h @ [j])"

text \<open>Calling a method on the job object at address \<open>r\<close>.\<close>

definition call_job ::
  "(JobStatus \<times> nat \<Rightarrow> pyval \<times> JobStatus \<times> nat) \<Rightarrow> nat \<Rightarrow> world \<Rightarrow> pyval \<times> world" where
  "call_job m r w =
     (let (v, j, t) = m (heap w ! r, ticks w)
      in (v, w\<lparr>heap := (heap w)[r := j], ticks := t\<rparr>))"

section \<open>PipelineStatus\<close>

definition PipelineState_READY :: pyval where "PipelineState_READY = PStr ''READY''"
definition PipelineState_QUEUED :: pyval where "PipelineState_QUEUED = PStr ''QUEUED''"
definition PipelineState_RUNNING :: pyval where "PipelineState_RUNNING = PStr ''RUNNING''"
definition PipelineState_FAILED :: pyval where "PipelineState_FAILED = PStr ''FAILED''"
definition PipelineState_COMPLETE :: pyval where "PipelineState_COMPLETE = PStr ''COMPLETE''"

text \<open>
  \<open>publish_callback\<close> and \<open>active_job\<close> are the private slots \<^verbatim>\<open>_publish_callback\<close> and
  \<^verbatim>\<open>_active_job\<close>. A registered callback is an object, held by reference; \<open>None\<close> is
  Python's \<^verbatim>\<open>None\<close>.
\<close>

record PipelineStatus =
  name :: pyval
  state :: pyval
  start_time :: pyval
  complete_time :: pyval
  fail_time :: pyval
  messages :: "StatusMessage list"
  jobs :: "nat list"
  publish_callback :: "nat option"
  active_job :: "nat option"

type_synonym system = "PipelineStatus \<times> world"

text \<open>
  The objects behind the callback references. \<^verbatim>\<open>set_publish_callback\<close> stores whatever
  object it is handed. Such an object has a truth value (a function is truthy; an object
  whose \<^verbatim>\<open>__bool__\<close> gives False or whose \<^verbatim>\<open>__len__\<close> gives 0 is falsy), and calling
  it hands it the aggregate and the world as they are: it may change both, and it either
  returns or raises (an object that cannot be called raises TypeError).
\<close>

record callable =
  truth_value :: bool
  invoke :: "system \<Rightarrow> error option \<times> system"

type_synonym callbacks = "nat \<Rightarrow> callable"

definition PipelineStatus_init :: "pyval \<Rightarrow> PipelineStatus" where
  "PipelineStatus_init nm =
     \<lparr>PipelineStatus.name = nm, state = PipelineState_QUEUED, start_time = PNone,
      complete_time = PNone, fail_time = PNone, messages = [], jobs = [],
      publish_callback = None, active_job = None\<rparr>"

definition PipelineStatus_set_publish_callback :: "nat option \<Rightarrow> system \<Rightarrow> pyval \<times> system" where
  "PipelineStatus_set_publish_callback cb s =
     (let (self, w) = s in (PNone, self\<lparr>publish_callback := cb\<rparr>, w))"

text \<open>
  \<^verbatim>\<open>if self._publish_callback: self._publish_callback(self)\<close>. The test is the truth
  value of the slot: \<^verbatim>\<open>None\<close> is falsy, a registered object is called only when it is
  truthy. What the callback returns is dropped; what it raises leaves \<open>publish\<close> as it is.
\<close>

definition PipelineStatus_publish :: "callbacks \<Rightarrow> system \<Rightarrow> (error + pyval) \<times> system" where
  "PipelineStatus_publish cbs s =
     (let (self, w) = s in
      case publish_callback self of
        None \<Rightarrow> (Inr PNone, self, w)
      | Some f \<Rightarrow>
          if truth_value (cbs f) then
            (let (e, s') = invoke (cbs f) (self, w)
             in (case e of None \<Rightarrow> Inr PNone | Some x \<Rightarrow> Inl x, s'))
          else (Inr PNone, self, w))"

definition PipelineStatus_add_job :: "pyval \<Rightarrow> system \<Rightarrow> nat \<times> system" where
  "PipelineStatus_add_job nm s =
     (let (self, w) = s;
          (r, h) = new_job (JobStatus_init nm) (heap w);
          self = self\<lparr>active_job := Some r\<rparr>;
          self = self\<lparr>jobs := jobs self @ [r]\<rparr>
      in (r, self, w\<lparr>heap := h\<rparr>))"

definition PipelineStatus_add_message :: "clock \<Rightarrow> pyval \<Rightarrow> system \<Rightarrow> pyval \<times> system" where
  "PipelineStatus_add_message clk msg s =
     (let (self, w) = s;
          (status_message, t') = StatusMessage_init clk msg PNone (ticks w);
          self = self\<lparr>PipelineStatus.messages := PipelineStatus.messages self @ [status_message]\<rparr>
      in (time status_message, self, w\<lparr>ticks := t'\<rparr>))"

definition PipelineStatus_start :: "clock \<Rightarrow> pyval option \<Rightarrow> system \<Rightarrow> pyval \<times> system" where
  "PipelineStatus_start clk msg s =
     (let (r, self, w) = PipelineStatus_add_message clk (arg_or msg (PStr ''Pipeline started'')) s;
          self = self\<lparr>PipelineStatus.start_time := r\<rparr>;
          self = self\<lparr>PipelineStatus.state := PipelineState_RUNNING\<rparr>
      in (PNone, self, w))"

definition PipelineStatus_complete :: "clock \<Rightarrow> pyval option \<Rightarrow> system \<Rightarrow> pyval \<times> system" where
  "PipelineStatus_complete clk msg s =
     (let (r, self, w) = PipelineStatus_add_message clk (arg_or msg (PStr ''Pipeline completed'')) s;
          self = self\<lparr>PipelineStatus.complete_time := r\<rparr>;
          self = self\<lparr>PipelineStatus.state := PipelineState_COMPLETE\<rparr>
      in (PNone, self, w))"

definition PipelineStatus_fail :: "clock \<Rightarrow> pyval option \<Rightarrow> system \<Rightarrow> pyval \<times> system" where
  "PipelineStatus_fail clk msg s =
     (let (r, self, w) = PipelineStatus_add_message clk (arg_or msg (PStr ''Pipeline failed'')) s;
          self = self\<lparr>PipelineStatus.fail_time := r\<rparr>;
          self = self\<lparr>PipelineStatus.state := PipelineState_FAILED\<rparr>
      in (PNone, self, w))"

definition PipelineStatus_attributes :: "string list" where
  "PipelineStatus_attributes =
     [''name'', ''state'', ''start_time'', ''complete_time'', ''fail_time'', ''messages'',
      ''jobs'']"

text \<open>
  \<^verbatim>\<open>[JobStatus.from_dict(_d) for _d in d["jobs"]]\<close>: every reconstructed job is a new
  object of the store.
\<close>

fun JobStatus_from_dicts :: "clock \<Rightarrow> pyval list \<Rightarrow> world \<Rightarrow> error + nat list \<times> world" where
  "JobStatus_from_dicts clk [] w = Inr ([], w)"
| "JobStatus_from_dicts clk (d # ds) w =
     bind_err (JobStatus_from_dict clk d (ticks w)) (\<lambda>(j, t').
     let (r, h) = new_job j (heap w) in
     bind_err (JobStatus_from_dicts clk ds \<lparr>heap = h, ticks = t'\<rparr>) (\<lambda>(rs, w').
     Inr (r # rs, w')))"

definition PipelineStatus_from_dict :: "clock \<Rightarrow> pyval \<Rightarrow> world \<Rightarrow> error + system" where
  "PipelineStatus_from_dict clk d w =
     bind_err (getitem d ''name'') (\<lambda>nm.
     let pipeline_status = PipelineStatus_init nm in
     bind_err (getitem d ''state'') (\<lambda>v.
     let pipeline_status = pipeline_status\<lparr>PipelineStatus.state := v\<rparr> in
     bind_err (getitem d ''start_time'') (\<lambda>v.
     let pipeline_status = pipeline_status\<lparr>PipelineStatus.start_time := v\<rparr> in
     bind_err (getitem d ''complete_time'') (\<lambda>v.
     let pipeline_status = pipeline_status\<lparr>PipelineStatus.complete_time := v\<rparr> in
     bind_err (getitem d ''fail_time'') (\<lambda>v.
     let pipeline_status = pipeline_status\<lparr>PipelineStatus.fail_time := v\<rparr> in
     bind_err (getitem d ''messages'') (\<lambda>v.
     bind_err (iterate v) (\<lambda>ds.
     bind_err (StatusMessage_from_dicts clk ds (ticks w)) (\<lambda>(ms, t').
     let pipeline_status = pipeline_status\<lparr>PipelineStatus.messages := ms\<rparr> in
     bind_err (getitem d ''jobs'') (\<lambda>v.
     bind_err (iterate v) (\<lambda>ds.
     bind_err (JobStatus_from_dicts clk ds (w\<lparr>ticks := t'\<rparr>)) (\<lambda>(rs, w').
     Inr (pipeline_status\<lparr>jobs := rs\<rparr>, w'))))))))))))"

section \<open>Projection to the keyed representation\<close>

text \<open>
  Modelled from the spec: \<^verbatim>\<open>Serializable.serialize\<close> of \<^verbatim>\<open>eta.core.serial\<close> is not among
  the sources. The spec's projection maps an entity to a keyed representation with the
  fields of \<^verbatim>\<open>attributes()\<close> in that order, and projects the nested collections
  \<^verbatim>\<open>messages\<close> and \<^verbatim>\<open>jobs\<close> element by element with the same contract.
\<close>

definition StatusMessage_serialize :: "StatusMessage \<Rightarrow> pyval" where
  "StatusMessage_serialize m = PDict [(''message'', message m), (''time'', time m)]"

definition JobStatus_serialize :: "JobStatus \<Rightarrow> pyval" where
  "JobStatus_serialize j =
     PDict [(''name'', JobStatus.name j), (''state'', JobStatus.state j),
            (''start_time'', JobStatus.start_time j),
            (''complete_time'', JobStatus.complete_time j),
            (''fail_time'', JobStatus.fail_time j),
            (''messages'', PList (map StatusMessage_serialize (JobStatus.messages j)))]"

definition PipelineStatus_serialize :: "system \<Rightarrow> pyval" where
  "PipelineStatus_serialize s =
     (let (self, w) = s in
      PDict [(''name'', PipelineStatus.name self), (''state'', PipelineStatus.state self),
             (''start_time'', PipelineStatus.start_time self),
             (''complete_time'', PipelineStatus.complete_time self),
             (''fail_time'', PipelineStatus.fail_time self),
             (''messages'', PList (map StatusMessage_serialize (PipelineStatus.messages self))),
             (''jobs'', PList (map (\<lambda>r. JobStatus_serialize (heap w ! r)) (jobs self)))])"

text \<open>The keys of a keyed representation, in order.\<close>

fun keys :: "pyval \<Rightarrow> string list" where
  "keys (PDict kvs) = map fst kvs"
| "keys v = []"

section \<open>Sequences of calls\<close>

text \<open>
  What a caller can do with a job and with a pipeline. A caller reaches a job of a
  pipeline as \<^verbatim>\<open>p.jobs[i]\<close> (IndexError out of range, a negative index counts from the
  end) or as \<^verbatim>\<open>p.active_job\<close> (\<open>None\<close> has no methods: AttributeError).
\<close>

datatype job_call =
    Job_add_message pyval
  | Job_skip "pyval option"
  | Job_start "pyval option"
  | Job_complete "pyval option"
  | Job_fail "pyval option"

fun job_method :: "clock \<Rightarrow> job_call \<Rightarrow> JobStatus \<times> nat \<Rightarrow> pyval \<times> JobStatus \<times> nat" where
  "job_method clk (Job_add_message m) = JobStatus_add_message clk m"
| "job_method clk (Job_skip m) = JobStatus_skip clk m"
| "job_method clk (Job_start m) = JobStatus_start clk m"
| "job_method clk (Job_complete m) = JobStatus_complete clk m"
| "job_method clk (Job_fail m) = JobStatus_fail clk m"

fun run_job :: "clock \<Rightarrow> job_call list \<Rightarrow> JobStatus \<times> nat \<Rightarrow> JobStatus \<times> nat" where
  "run_job clk [] s = s"
| "run_job clk (c # cs) s = run_job clk cs (snd (job_method clk c s))"

datatype job_expr = Jobs_at int | Active_job

fun eval_job_expr :: "job_expr \<Rightarrow> PipelineStatus \<Rightarrow> error + nat" where
  "eval_job_expr (Jobs_at i) self =
     (let n = int (length (jobs self)); k = (if i < 0 then n + i else i)
      in if 0 \<le> k \<and> k < n then Inr (jobs self ! nat k) else Inl IndexError)"
| "eval_job_expr Active_job self =
     (case active_job self of None \<Rightarrow> Inl AttributeError | Some r \<Rightarrow> Inr r)"

datatype call =
    Set_publish_callback "nat option"
  | Publish
  | Add_job pyval
  | Add_message pyval
  | Start "pyval option"
  | Complete "pyval option"
  | Fail "pyval option"
  | On_job job_expr job_call

text \<open>One call: the error it raises, if any, and the system after it.\<close>

fun exec :: "clock \<Rightarrow> callbacks \<Rightarrow> call \<Rightarrow> system \<Rightarrow> error option \<times> system" where
  "exec clk cbs (Set_publish_callback cb) s = (None, snd (PipelineStatus_set_publish_callback cb s))"
| "exec clk cbs Publish s =
     (let (r, s') = PipelineStatus_publish cbs s
      in (case r of Inl e \<Rightarrow> Some e | Inr v \<Rightarrow> None, s'))"
| "exec clk cbs (Add_job nm) s = (None, snd (PipelineStatus_add_job nm s))"
| "exec clk cbs (Add_message m) s = (None, snd (PipelineStatus_add_message clk m s))"
| "exec clk cbs (Start m) s = (None, snd (PipelineStatus_start clk m s))"
| "exec clk cbs (Complete m) s = (None, snd (PipelineStatus_complete clk m s))"
| "exec clk cbs (Fail m) s = (None, snd (PipelineStatus_fail clk m s))"
| "exec clk cbs (On_job e c) s =
     (let (self, w) = s in
      case eval_job_expr e self of
        Inl err \<Rightarrow> (Some err, self, w)
      | Inr r \<Rightarrow> (None, self, snd (call_job (job_method clk c) r w)))"

text \<open>A caller that goes on after an error: the calls run one after the other.\<close>

fun run :: "clock \<Rightarrow> callbacks \<Rightarrow> call list \<Rightarrow> system \<Rightarrow> system" where
  "run clk cbs [] s = s"
| "run clk cbs (c # cs) s = run clk cbs cs (snd (exec clk cbs c s))"

fun is_add_job :: "call \<Rightarrow> bool" where
  "is_add_job (Add_job nm) = True"
| "is_add_job c = False"

text \<open>A callback that only observes: it leaves the aggregate and the world as they are.\<close>

definition observers :: "callbacks \<Rightarrow> bool" where
  "observers cbs = (\<forall>f s. snd (invoke (cbs f) s) = s)"

text \<open>The clock's text is never empty.\<close>

definition clock_text :: "clock \<Rightarrow> bool" where
  "clock_text clk = (\<forall>t. clk t \<noteq> [])"

text \<open>
  The active job of a pipeline whose jobs all came from \<^verbatim>\<open>add_job\<close>: none when there is
  no job, and otherwise the same object as the last element of \<^verbatim>\<open>jobs\<close>.
\<close>

definition tracks_last :: "PipelineStatus \<Rightarrow> bool" where
  "tracks_last p =
     (case active_job p of
        None \<Rightarrow> jobs p = []
      | Some r \<Rightarrow> jobs p \<noteq> [] \<and> last (jobs p) = r)"

section \<open>Structural equality\<close>

text \<open>
  Two pipelines are structurally equal when the attributes of the projection agree, the
  jobs compared as objects (by their fields), not as addresses.
\<close>

definition structurally_equal :: "system \<Rightarrow> system \<Rightarrow> bool" where
  "structurally_equal s s' =
     (let (p, w) = s; (p', w') = s' in
      PipelineStatus.name p' = PipelineStatus.name p \<and>
      PipelineStatus.state p' = PipelineStatus.state p \<and>
      PipelineStatus.start_time p' = PipelineStatus.start_time p \<and>
      PipelineStatus.complete_time p' = PipelineStatus.complete_time p \<and>
      PipelineStatus.fail_time p' = PipelineStatus.fail_time p \<and>
      PipelineStatus.messages p' = PipelineStatus.messages p \<and>
      map (\<lambda>r. heap w' ! r) (jobs p') = map (\<lambda>r. heap w ! r) (jobs p))"

text \<open>The invariant behind the round trip: every logged time is truthy, every job exists.\<close>

definition StatusMessage_ok :: "StatusMessage \<Rightarrow> bool" where
  "StatusMessage_ok m = truthy (time m)"

definition JobStatus_ok :: "JobStatus \<Rightarrow> bool" where
  "JobStatus_ok j = list_all StatusMessage_ok (JobStatus.messages j)"

definition system_ok :: "system \<Rightarrow> bool" where
  "system_ok s =
     (let (p, w) = s in
      list_all StatusMessage_ok (PipelineStatus.messages p) \<and>
      list_all (\<lambda>r. r < length (heap w) \<and> JobStatus_ok (heap w ! r)) (jobs p))"

section \<open>Example inputs\<close>

definition example_clock :: clock where
  "example_clock t = ''2024-01-01T00:00:00''"

definition example_world :: world where
  "example_world = \<lparr>heap = [], ticks = 0\<rparr>"

text \<open>
  Callback 0 is a function that observes and returns. Every other callback renames the
  aggregate it is handed and then raises; callback 1 is a function, the others are
  callable objects that are falsy.
\<close>

definition example_callbacks :: callbacks where
  "example_callbacks f =
     (if f = 0 then \<lparr>truth_value = True, invoke = (\<lambda>s. (None, s))\<rparr>
      else \<lparr>truth_value = (f = 1),
            invoke = (\<lambda>s. (Some (Raised ''monitor down''),
                           (fst s)\<lparr>PipelineStatus.name := PStr ''seen''\<rparr>, snd s))\<rparr>)"

text \<open>Functions that only observe: callback 0 returns, the others raise.\<close>

definition quiet_callbacks :: callbacks where
  "quiet_callbacks f =
     \<lparr>truth_value = True,
      invoke = (\<lambda>s. if f = 0 then (None, s) else (Some (Raised ''monitor down''), s))\<rparr>"

text \<open>The spec's example of a persisted pipeline with one running job.\<close>

definition example_dict :: pyval where
  "example_dict =
     PDict [(''name'', PStr ''demo''), (''state'', PStr ''RUNNING''),
            (''start_time'', PStr ''2024-01-01T00:00:00''), (''complete_time'', PNone),
            (''fail_time'', PNone),
            (''messages'', PList [PDict [(''message'', PStr ''Pipeline started''),
                                         (''time'', PStr ''2024-01-01T00:00:00'')]]),
            (''jobs'', PList [PDict [(''name'', PStr ''job1''), (''state'', PStr ''RUNNING''),
                                     (''start_time'', PStr ''2024-01-01T00:00:01''),
                                     (''complete_time'', PNone), (''fail_time'', PNone),
                                     (''messages'', PList [PDict [(''message'', PStr ''Job started''),
                                         (''time'', PStr ''2024-01-01T00:00:01'')]])]])]"

text \<open>The spec's end-to-end scenario, and a finished job.\<close>

definition example_calls :: "call list" where
  "example_calls =
     [Start None, Add_job (PStr ''job1''), On_job Active_job (Job_start None),
      On_job Active_job (Job_complete None), Complete None]"

definition example_system :: system where
  "example_system =
     run example_clock quiet_callbacks example_calls
       (PipelineStatus_init (PStr ''demo''), example_world)"

definition example_job :: JobStatus where
  "example_job =
     fst (run_job example_clock [Job_start None, Job_complete None]
       (JobStatus_init (PStr ''job1''), 0))"


section \<open>Basic facts\<close>

lemmas state_defs =
  JobState_READY_def JobState_QUEUED_def JobState_SKIPPED_def JobState_RUNNING_def
  JobState_FAILED_def JobState_COMPLETE_def PipelineState_READY_def PipelineState_QUEUED_def
  PipelineState_RUNNING_def PipelineState_FAILED_def PipelineState_COMPLETE_def

lemma bind_err_Inr_iff [simp]: "(bind_err x f = Inr y) = (\<exists>v. x = Inr v \<and> f v = Inr y)"
  by (cases x) simp_all

lemma isl_bind_err_iff: "isl (bind_err x f) = (case x of Inl e \<Rightarrow> True | Inr v \<Rightarrow> isl (f v))"
  by (cases x) simp_all

lemma getitem_missing: "k \<notin> fst ` set kvs \<Longrightarrow> getitem (PDict kvs) k = Inl (KeyError k)"
proof -
  assume "k \<notin> fst ` set kvs"
  then have "map_of kvs k = None" by (simp add: map_of_eq_None_iff)
  then show ?thesis by simp
qed

lemma StatusMessage_missing:
  assumes "k \<notin> fst ` set kvs" "k \<in> set StatusMessage_attributes"
  shows "isl (StatusMessage_from_dict clk (PDict kvs) t)"
proof -
  have "getitem (PDict kvs) k = Inl (KeyError k)" using assms(1) by (rule getitem_missing)
  moreover have "k = ''message'' \<or> k = ''time''"
    using assms(2) by (simp add: StatusMessage_attributes_def)
  ultimately show ?thesis
    unfolding StatusMessage_from_dict_def
    by (auto simp: isl_bind_err_iff simp del: getitem.simps split: sum.splits)
qed

lemma JobStatus_missing:
  assumes "k \<notin> fst ` set kvs" "k \<in> set JobStatus_attributes"
  shows "isl (JobStatus_from_dict clk (PDict kvs) t)"
proof -
  have "getitem (PDict kvs) k = Inl (KeyError k)" using assms(1) by (rule getitem_missing)
  moreover have "k = ''name'' \<or> k = ''state'' \<or> k = ''start_time'' \<or> k = ''complete_time''
      \<or> k = ''fail_time'' \<or> k = ''messages''"
    using assms(2) by (simp add: JobStatus_attributes_def)
  ultimately show ?thesis
    unfolding JobStatus_from_dict_def Let_def
    by (auto simp: isl_bind_err_iff simp del: getitem.simps split: sum.splits)
qed

lemma PipelineStatus_missing:
  assumes "k \<notin> fst ` set kvs" "k \<in> set PipelineStatus_attributes"
  shows "isl (PipelineStatus_from_dict clk (PDict kvs) w)"
proof -
  have "getitem (PDict kvs) k = Inl (KeyError k)" using assms(1) by (rule getitem_missing)
  moreover have "k = ''name'' \<or> k = ''state'' \<or> k = ''start_time'' \<or> k = ''complete_time''
      \<or> k = ''fail_time'' \<or> k = ''messages'' \<or> k = ''jobs''"
    using assms(2) by (simp add: PipelineStatus_attributes_def)
  ultimately show ?thesis
    unfolding PipelineStatus_from_dict_def Let_def
    by (auto simp: isl_bind_err_iff simp del: getitem.simps split: sum.splits prod.splits)
qed

lemma example_from_dict:
  "PipelineStatus_from_dict example_clock example_dict example_world =
   Inr (\<lparr>PipelineStatus.name = PStr ''demo'', state = PStr ''RUNNING'',
         start_time = PStr ''2024-01-01T00:00:00'', complete_time = PNone,
         fail_time = PNone,
         messages = [\<lparr>message = PStr ''Pipeline started'', time = PStr ''2024-01-01T00:00:00''\<rparr>],
         jobs = [0], publish_callback = None, active_job = None\<rparr>,
      \<lparr>heap = [\<lparr>JobStatus.name = PStr ''job1'', state = PStr ''RUNNING'',
             start_time = PStr ''2024-01-01T00:00:01'',
             complete_time = PNone, fail_time = PNone,
             messages = [\<lparr>message = PStr ''Job started'', time = PStr ''2024-01-01T00:00:01''\<rparr>]\<rparr>],
         ticks = 0\<rparr>)"
  by (simp add: PipelineStatus_from_dict_def example_dict_def example_world_def
      PipelineStatus_init_def JobStatus_from_dict_def JobStatus_init_def
      StatusMessage_from_dict_def StatusMessage_init_def new_job_def)

lemma publish_observers:
  "observers cbs \<Longrightarrow> snd (PipelineStatus_publish cbs s) = s"
proof -
  assume obs: "observers cbs"
  obtain p w where s: "s = (p, w)" by (cases s)
  show ?thesis
  proof (cases "publish_callback p")
    case None
    then show ?thesis by (simp add: s PipelineStatus_publish_def)
  next
    case (Some f)
    have "snd (invoke (cbs f) (p, w)) = (p, w)" using obs by (simp add: observers_def)
    then show ?thesis using Some
      by (auto simp: s PipelineStatus_publish_def split: prod.splits)
  qed
qed

lemma exec_publish:
  "observers cbs \<Longrightarrow> snd (exec clk cbs Publish s) = s"
  using publish_observers [of cbs s] by (simp add: split_def)

lemma job_method_messages:
  "\<exists>m. JobStatus.messages (fst (snd (job_method clk c (j, t)))) = JobStatus.messages j @ [m]"
  by (cases c) (simp_all add: JobStatus_start_def JobStatus_fail_def JobStatus_complete_def
      JobStatus_skip_def JobStatus_add_message_def StatusMessage_init_def get_isotime_def)

lemma job_method_keeps:
  "take (length (JobStatus.messages j)) (JobStatus.messages (fst (snd (job_method clk c (j, t)))))
     = JobStatus.messages j"
  using job_method_messages [of clk c j t] by auto

lemma exec_messages:
  "observers cbs \<Longrightarrow>
   \<exists>ms. PipelineStatus.messages (fst (snd (exec clk cbs e (p, w)))) = PipelineStatus.messages p @ ms"
  by (cases e) (auto simp: exec_publish PipelineStatus_set_publish_callback_def
      PipelineStatus_add_job_def PipelineStatus_add_message_def
      PipelineStatus_start_def PipelineStatus_complete_def PipelineStatus_fail_def
      StatusMessage_init_def get_isotime_def new_job_def
      simp del: exec.simps(2) split: prod.splits option.splits sum.splits)

lemma call_job_heap:
  "heap (snd (call_job (job_method clk c) r' w)) =
     (heap w)[r' := fst (snd (job_method clk c (heap w ! r', ticks w)))]"
  by (simp add: call_job_def split: prod.splits)

lemma exec_heap:
  assumes "observers cbs" "r < length (heap w)"
  shows "heap (snd (snd (exec clk cbs e (p, w)))) ! r = heap w ! r \<or>
     (\<exists>c t. heap (snd (snd (exec clk cbs e (p, w)))) ! r = fst (snd (job_method clk c (heap w ! r, t))))"
proof (cases e)
  case (On_job x c)
  show ?thesis
  proof (cases "eval_job_expr x p")
    case (Inl a)
    then show ?thesis using On_job by simp
  next
    case (Inr r')
    then show ?thesis using On_job assms(2)
      by (cases "r' = r") (auto simp: call_job_heap)
  qed
next
  case Publish
  then show ?thesis using exec_publish [OF assms(1), of clk "(p, w)"] by simp
qed (use assms(2) in \<open>auto simp: PipelineStatus_set_publish_callback_def
      PipelineStatus_add_job_def PipelineStatus_add_message_def
      PipelineStatus_start_def PipelineStatus_complete_def PipelineStatus_fail_def
      new_job_def nth_append split: prod.splits\<close>)

lemma quiet_observers: "observers quiet_callbacks"
  by (simp add: observers_def quiet_callbacks_def)

section \<open>Construction\<close>

text \<open>
  C8. A freshly constructed PipelineStatus(name) has state QUEUED, no messages, no jobs, no
  active job and its three milestone timestamps unset; a freshly constructed
  JobStatus(name) has state QUEUED, which is not READY, no messages and its three milestone
  timestamps unset.
\<close>

theorem fresh_instances:
  "PipelineStatus.name (PipelineStatus_init nm) = nm \<and>
   PipelineStatus.state (PipelineStatus_init nm) = PStr ''QUEUED'' \<and>
   PipelineStatus.messages (PipelineStatus_init nm) = [] \<and>
   jobs (PipelineStatus_init nm) = [] \<and>
   active_job (PipelineStatus_init nm) = None \<and>
   PipelineStatus.start_time (PipelineStatus_init nm) = PNone \<and>
   PipelineStatus.complete_time (PipelineStatus_init nm) = PNone \<and>
   PipelineStatus.fail_time (PipelineStatus_init nm) = PNone \<and>
   JobStatus.name (JobStatus_init nm) = nm \<and>
   JobStatus.state (JobStatus_init nm) = JobState_QUEUED \<and>
   JobState_QUEUED = PStr ''QUEUED'' \<and>
   JobStatus.state (JobStatus_init nm) \<noteq> JobState_READY \<and>
   JobStatus.messages (JobStatus_init nm) = [] \<and>
   JobStatus.start_time (JobStatus_init nm) = PNone \<and>
   JobStatus.complete_time (JobStatus_init nm) = PNone \<and>
   JobStatus.fail_time (JobStatus_init nm) = PNone"
  by (simp add: PipelineStatus_init_def JobStatus_init_def state_defs)

section \<open>The publish hook\<close>

text \<open>
  C5. On a PipelineStatus with no publish callback registered, publish() does not raise
  (it returns None) and leaves the aggregate and the world exactly as they were: state,
  timestamps, messages, jobs and active job.
\<close>

theorem publish_without_callback:
  "publish_callback self = None \<Longrightarrow> PipelineStatus_publish cbs (self, w) = (Inr PNone, self, w)"
  by (simp add: PipelineStatus_publish_def)

theorem publish_without_callback_witness:
  "publish_callback (PipelineStatus_init (PStr ''demo'')) = None \<and>
   PipelineStatus_publish example_callbacks (PipelineStatus_init (PStr ''demo''), example_world)
     = (Inr PNone, PipelineStatus_init (PStr ''demo''), example_world)"
  using publish_without_callback
    [of "PipelineStatus_init (PStr ''demo'')" example_callbacks example_world]
  by (simp add: PipelineStatus_init_def)

text \<open>
  C6, as the claim states it, fails: a registered callback that is falsy is not invoked.
  Callback 2 would rename the aggregate and raise; with it registered, publish() returns
  None and the aggregate keeps its name.
\<close>

theorem publish_with_callback_counterexample:
  "publish_callback
     (fst (snd (PipelineStatus_set_publish_callback (Some 2)
        (PipelineStatus_init (PStr ''demo''), example_world)))) = Some 2 \<and>
   fst (invoke (example_callbacks 2)
     (snd (PipelineStatus_set_publish_callback (Some 2)
        (PipelineStatus_init (PStr ''demo''), example_world)))) = Some (Raised ''monitor down'') \<and>
   PipelineStatus_publish example_callbacks
     (snd (PipelineStatus_set_publish_callback (Some 2)
        (PipelineStatus_init (PStr ''demo''), example_world))) =
   (Inr PNone, snd (PipelineStatus_set_publish_callback (Some 2)
        (PipelineStatus_init (PStr ''demo''), example_world)))"
  by (simp add: PipelineStatus_set_publish_callback_def PipelineStatus_publish_def
      example_callbacks_def)

text \<open>
  C6, amended. On a PipelineStatus with a registered publish callback that is truthy, as
  every function is, publish() is one call of that callback on the aggregate itself: the
  system after publish() is the system the callback left, so what the callback changed is
  changed in the caller's aggregate, and an error the callback raises is the error
  publish() raises, unchanged. A registered callback that is falsy is not invoked:
  publish() returns None and changes nothing.
\<close>

theorem publish_with_callback:
  "publish_callback self = Some f \<Longrightarrow>
   (truth_value (cbs f) \<longrightarrow>
      snd (PipelineStatus_publish cbs (self, w)) = snd (invoke (cbs f) (self, w)) \<and>
      fst (PipelineStatus_publish cbs (self, w)) =
        (case fst (invoke (cbs f) (self, w)) of None \<Rightarrow> Inr PNone | Some e \<Rightarrow> Inl e)) \<and>
   (\<not> truth_value (cbs f) \<longrightarrow>
      PipelineStatus_publish cbs (self, w) = (Inr PNone, self, w))"
  by (simp add: PipelineStatus_publish_def split: prod.splits)

theorem publish_with_callback_witness:
  "publish_callback
     (fst (snd (PipelineStatus_set_publish_callback (Some 1)
        (PipelineStatus_init (PStr ''demo''), example_world)))) = Some 1 \<and>
   truth_value (example_callbacks 1) \<and>
   fst (PipelineStatus_publish example_callbacks
     (snd (PipelineStatus_set_publish_callback (Some 1)
        (PipelineStatus_init (PStr ''demo''), example_world)))) = Inl (Raised ''monitor down'') \<and>
   PipelineStatus.name (fst (snd (PipelineStatus_publish example_callbacks
     (snd (PipelineStatus_set_publish_callback (Some 1)
        (PipelineStatus_init (PStr ''demo''), example_world)))))) = PStr ''seen'' \<and>
   \<not> truth_value (example_callbacks 2) \<and>
   PipelineStatus_publish example_callbacks
     ((PipelineStatus_init (PStr ''demo''))\<lparr>publish_callback := Some 2\<rparr>, example_world) =
   (Inr PNone, (PipelineStatus_init (PStr ''demo''))\<lparr>publish_callback := Some 2\<rparr>,
    example_world)"
  using publish_with_callback
    [of "(PipelineStatus_init (PStr ''demo''))\<lparr>publish_callback := Some 1\<rparr>" 1
        example_callbacks example_world]
    publish_with_callback
    [of "(PipelineStatus_init (PStr ''demo''))\<lparr>publish_callback := Some 2\<rparr>" 2
        example_callbacks example_world]
  by (simp add: PipelineStatus_set_publish_callback_def PipelineStatus_init_def
      example_callbacks_def)

section \<open>Job transitions\<close>

text \<open>
  C7. On any JobStatus, start() followed by fail() leaves the state FAILED, start_time the
  timestamp of the message start() logged and fail_time the timestamp of the message
  fail() logged, neither of them None. Each of start(), complete() and fail(), called from
  any state and whatever the fields held before, overwrites its own timestamp and the
  state and leaves the other two timestamps alone; skip() overwrites the state only.
\<close>

theorem start_then_fail:
  "(let (r1, j1, t1) = JobStatus_start clk m1 (j, t);
        (r2, j2, t2) = JobStatus_fail clk m2 (j1, t1)
    in JobStatus.state j2 = PStr ''FAILED'' \<and>
       JobStatus.start_time j2 = PStr (clk t) \<and>
       JobStatus.fail_time j2 = PStr (clk (Suc t)) \<and>
       JobStatus.start_time j2 \<noteq> PNone \<and> JobStatus.fail_time j2 \<noteq> PNone \<and>
       JobStatus.messages j2 = JobStatus.messages j @
         [\<lparr>message = arg_or m1 (PStr ''Job started''), time = JobStatus.start_time j2\<rparr>,
          \<lparr>message = arg_or m2 (PStr ''Job failed''), time = JobStatus.fail_time j2\<rparr>]) \<and>
   (let (r, j', t') = JobStatus_start clk m1 (j, t)
    in JobStatus.state j' = PStr ''RUNNING'' \<and> JobStatus.start_time j' = PStr (clk t) \<and>
       JobStatus.complete_time j' = JobStatus.complete_time j \<and>
       JobStatus.fail_time j' = JobStatus.fail_time j) \<and>
   (let (r, j', t') = JobStatus_complete clk m1 (j, t)
    in JobStatus.state j' = PStr ''COMPLETE'' \<and> JobStatus.complete_time j' = PStr (clk t) \<and>
       JobStatus.start_time j' = JobStatus.start_time j \<and>
       JobStatus.fail_time j' = JobStatus.fail_time j) \<and>
   (let (r, j', t') = JobStatus_fail clk m1 (j, t)
    in JobStatus.state j' = PStr ''FAILED'' \<and> JobStatus.fail_time j' = PStr (clk t) \<and>
       JobStatus.start_time j' = JobStatus.start_time j \<and>
       JobStatus.complete_time j' = JobStatus.complete_time j) \<and>
   (let (r, j', t') = JobStatus_skip clk m1 (j, t)
    in JobStatus.state j' = PStr ''SKIPPED'' \<and>
       JobStatus.start_time j' = JobStatus.start_time j \<and>
       JobStatus.complete_time j' = JobStatus.complete_time j \<and>
       JobStatus.fail_time j' = JobStatus.fail_time j)"
  by (simp add: JobStatus_start_def JobStatus_fail_def JobStatus_complete_def JobStatus_skip_def
      JobStatus_add_message_def StatusMessage_init_def get_isotime_def state_defs)

text \<open>
  C3, as the claim states it, fails: start() on a fresh job logs a message whose timestamp is
  the clock's text, and returns None.
\<close>

theorem transitions_counterexample:
  "fst (JobStatus_start example_clock None (JobStatus_init (PStr ''job1''), 0)) = PNone \<and>
   time (last (JobStatus.messages
     (fst (snd (JobStatus_start example_clock None (JobStatus_init (PStr ''job1''), 0))))))
     = PStr ''2024-01-01T00:00:00'' \<and>
   fst (JobStatus_start example_clock None (JobStatus_init (PStr ''job1''), 0)) \<noteq>
   time (last (JobStatus.messages
     (fst (snd (JobStatus_start example_clock None (JobStatus_init (PStr ''job1''), 0))))))"
  by (simp add: JobStatus_start_def JobStatus_add_message_def StatusMessage_init_def
      get_isotime_def JobStatus_init_def example_clock_def)

text \<open>
  C3, amended. On any JobStatus and with any message argument, each of skip, start, complete
  and fail appends exactly one StatusMessage, stamped with the clock's reading, to the job's
  log, sets the state, and returns None; start, complete and fail store the message's
  timestamp in start_time, complete_time and fail_time. Only add_message returns the
  timestamp of the message it appends.
\<close>

theorem transitions_append_and_return_none:
  "JobStatus_add_message clk m (j, t) =
     (PStr (clk t), j\<lparr>JobStatus.messages := JobStatus.messages j @ [\<lparr>message = m, time = PStr (clk t)\<rparr>]\<rparr>, Suc t) \<and>
   JobStatus_skip clk mo (j, t) =
     (PNone, j\<lparr>JobStatus.messages := JobStatus.messages j @
         [\<lparr>message = arg_or mo (PStr ''Job skipped''), time = PStr (clk t)\<rparr>],
        JobStatus.state := JobState_SKIPPED\<rparr>, Suc t) \<and>
   JobStatus_start clk mo (j, t) =
     (PNone, j\<lparr>JobStatus.messages := JobStatus.messages j @
         [\<lparr>message = arg_or mo (PStr ''Job started''), time = PStr (clk t)\<rparr>],
        JobStatus.start_time := PStr (clk t), JobStatus.state := JobState_RUNNING\<rparr>, Suc t) \<and>
   JobStatus_complete clk mo (j, t) =
     (PNone, j\<lparr>JobStatus.messages := JobStatus.messages j @
         [\<lparr>message = arg_or mo (PStr ''Job completed''), time = PStr (clk t)\<rparr>],
        JobStatus.complete_time := PStr (clk t), JobStatus.state := JobState_COMPLETE\<rparr>, Suc t) \<and>
   JobStatus_fail clk mo (j, t) =
     (PNone, j\<lparr>JobStatus.messages := JobStatus.messages j @
         [\<lparr>message = arg_or mo (PStr ''Job failed''), time = PStr (clk t)\<rparr>],
        JobStatus.fail_time := PStr (clk t), JobStatus.state := JobState_FAILED\<rparr>, Suc t)"
  by (simp add: JobStatus_start_def JobStatus_fail_def JobStatus_complete_def JobStatus_skip_def
      JobStatus_add_message_def StatusMessage_init_def get_isotime_def)

section \<open>Message timestamps\<close>

text \<open>
  C9, as the claim states it, fails: a supplied time that is the empty string is not kept.
\<close>

theorem supplied_time_counterexample:
  "time (fst (StatusMessage_init example_clock (PStr ''hello'') (PStr []) 0)) \<noteq> PStr []"
  by (simp add: StatusMessage_init_def get_isotime_def example_clock_def)

text \<open>
  C9, amended. A StatusMessage created with a supplied time that is truthy (a non-empty
  text) has exactly that time; created without a time, or with a falsy one (None, the
  empty string), it has the clock's current reading. No call on a job or on a pipeline
  (callbacks that only observe) changes a message already logged: the log a job or a
  pipeline had before the call is the beginning of the log it has after.
\<close>

theorem message_time:
  "observers cbs \<Longrightarrow>
   (truthy tm \<longrightarrow> StatusMessage_init clk msg tm t = (\<lparr>message = msg, time = tm\<rparr>, t)) \<and>
   (\<not> truthy tm \<longrightarrow>
      StatusMessage_init clk msg tm t = (\<lparr>message = msg, time = PStr (clk t)\<rparr>, Suc t)) \<and>
   take (length (JobStatus.messages j)) (JobStatus.messages (fst (snd (job_method clk c (j, t)))))
     = JobStatus.messages j \<and>
   take (length (PipelineStatus.messages p))
     (PipelineStatus.messages (fst (snd (exec clk cbs e (p, w))))) = PipelineStatus.messages p \<and>
   (\<forall>r < length (heap w).
      take (length (JobStatus.messages (heap w ! r)))
        (JobStatus.messages (heap (snd (snd (exec clk cbs e (p, w)))) ! r))
      = JobStatus.messages (heap w ! r))"
proof (intro conjI impI allI)
  assume obs: "observers cbs"
  show "take (length (PipelineStatus.messages p))
     (PipelineStatus.messages (fst (snd (exec clk cbs e (p, w))))) = PipelineStatus.messages p"
    using exec_messages [OF obs, of clk e p w] by auto
  fix r assume "r < length (heap w)"
  from exec_heap [OF obs this, of clk e p]
  show "take (length (JobStatus.messages (heap w ! r)))
        (JobStatus.messages (heap (snd (snd (exec clk cbs e (p, w)))) ! r))
      = JobStatus.messages (heap w ! r)"
    using job_method_keeps by auto
qed (simp_all add: StatusMessage_init_def get_isotime_def job_method_keeps)

theorem message_time_witness:
  "observers quiet_callbacks \<and>
   truthy (PStr ''2023-12-31T23:59:59'') \<and>
   StatusMessage_init example_clock (PStr ''hello'') (PStr ''2023-12-31T23:59:59'') 0 =
     (\<lparr>message = PStr ''hello'', time = PStr ''2023-12-31T23:59:59''\<rparr>, 0) \<and>
   \<not> truthy PNone \<and>
   StatusMessage_init example_clock (PStr ''hello'') PNone 0 =
     (\<lparr>message = PStr ''hello'', time = PStr (example_clock 0)\<rparr>, Suc 0) \<and>
   take (length (JobStatus.messages (JobStatus_init (PStr ''job1''))))
     (JobStatus.messages (heap (snd (snd (exec example_clock quiet_callbacks
        (On_job (Jobs_at 0) (Job_start None))
        ((PipelineStatus_init (PStr ''demo''))\<lparr>jobs := [0]\<rparr>,
         \<lparr>heap = [JobStatus_init (PStr ''job1'')], ticks = 0\<rparr>)))) ! 0))
     = JobStatus.messages (JobStatus_init (PStr ''job1'')) \<and>
   JobStatus.messages (heap (snd (snd (exec example_clock quiet_callbacks
        (On_job (Jobs_at 0) (Job_start None))
        ((PipelineStatus_init (PStr ''demo''))\<lparr>jobs := [0]\<rparr>,
         \<lparr>heap = [JobStatus_init (PStr ''job1'')], ticks = 0\<rparr>)))) ! 0)
     = [\<lparr>message = PStr ''Job started'', time = PStr ''2024-01-01T00:00:00''\<rparr>]"
  using message_time [of quiet_callbacks "PStr ''2023-12-31T23:59:59''" example_clock
      "PStr ''hello''" 0 "JobStatus_init (PStr ''job1'')" "Job_start None"
      "(PipelineStatus_init (PStr ''demo''))\<lparr>jobs := [0]\<rparr>" "On_job (Jobs_at 0) (Job_start None)"
      "\<lparr>heap = [JobStatus_init (PStr ''job1'')], ticks = 0\<rparr>"]
    message_time [of quiet_callbacks PNone example_clock
      "PStr ''hello''" 0 "JobStatus_init (PStr ''job1'')" "Job_start None"
      "(PipelineStatus_init (PStr ''demo''))\<lparr>jobs := [0]\<rparr>" "On_job (Jobs_at 0) (Job_start None)"
      "\<lparr>heap = [JobStatus_init (PStr ''job1'')], ticks = 0\<rparr>"]
    quiet_observers
  by (simp add: JobStatus_init_def call_job_def JobStatus_start_def JobStatus_add_message_def
      StatusMessage_init_def get_isotime_def example_clock_def)

section \<open>Reconstruction\<close>

text \<open>
  C4. Reconstructing a StatusMessage, a JobStatus or a PipelineStatus from a keyed
  representation that lacks one of the keys of its projection raises an error: no instance
  is built and no default is filled in.
\<close>

theorem missing_key_raises:
  "k \<notin> fst ` set kvs \<Longrightarrow>
   (k \<in> set StatusMessage_attributes \<longrightarrow> isl (StatusMessage_from_dict clk (PDict kvs) t)) \<and>
   (k \<in> set JobStatus_attributes \<longrightarrow> isl (JobStatus_from_dict clk (PDict kvs) t)) \<and>
   (k \<in> set PipelineStatus_attributes \<longrightarrow> isl (PipelineStatus_from_dict clk (PDict kvs) w))"
  using StatusMessage_missing JobStatus_missing PipelineStatus_missing by blast

theorem missing_key_raises_witness:
  "''time'' \<notin> fst ` set [(''message'', PStr ''hi'')] \<and>
   ''time'' \<in> set StatusMessage_attributes \<and>
   isl (StatusMessage_from_dict example_clock (PDict [(''message'', PStr ''hi'')]) 0) \<and>
   ''messages'' \<notin> fst ` set [(''name'', PStr ''job1''), (''state'', PStr ''QUEUED''),
      (''start_time'', PNone), (''complete_time'', PNone), (''fail_time'', PNone)] \<and>
   ''messages'' \<in> set JobStatus_attributes \<and>
   ''messages'' \<in> set PipelineStatus_attributes \<and>
   isl (JobStatus_from_dict example_clock (PDict [(''name'', PStr ''job1''),
      (''state'', PStr ''QUEUED''), (''start_time'', PNone), (''complete_time'', PNone),
      (''fail_time'', PNone)]) 0) \<and>
   isl (PipelineStatus_from_dict example_clock (PDict [(''name'', PStr ''job1''),
      (''state'', PStr ''QUEUED''), (''start_time'', PNone), (''complete_time'', PNone),
      (''fail_time'', PNone)]) example_world)"
  using missing_key_raises [of "''time''" "[(''message'', PStr ''hi'')]" example_clock 0 example_world]
    missing_key_raises [of "''messages''" "[(''name'', PStr ''job1''), (''state'', PStr ''QUEUED''),
      (''start_time'', PNone), (''complete_time'', PNone), (''fail_time'', PNone)]"
      example_clock 0 example_world]
  by (simp add: StatusMessage_attributes_def JobStatus_attributes_def PipelineStatus_attributes_def)

text \<open>
  C10. Whatever keyed representation a PipelineStatus is reconstructed from, also one with
  jobs, the reconstructed aggregate has no active job and no publish callback, so that its
  publish() does nothing.
\<close>

theorem from_dict_resets_slots:
  "PipelineStatus_from_dict clk d w = Inr (p, w') \<Longrightarrow>
   active_job p = None \<and> publish_callback p = None \<and>
   PipelineStatus_publish cbs (p, w') = (Inr PNone, p, w')"
  by (auto simp: PipelineStatus_from_dict_def PipelineStatus_init_def PipelineStatus_publish_def Let_def
      split: prod.splits)

theorem from_dict_resets_slots_witness:
  "\<not> isl (PipelineStatus_from_dict example_clock example_dict example_world) \<and>
   jobs (fst (projr (PipelineStatus_from_dict example_clock example_dict example_world))) = [0] \<and>
   active_job (fst (projr (PipelineStatus_from_dict example_clock example_dict example_world))) = None \<and>
   publish_callback (fst (projr (PipelineStatus_from_dict example_clock example_dict example_world))) = None \<and>
   fst (PipelineStatus_publish example_callbacks
     (projr (PipelineStatus_from_dict example_clock example_dict example_world))) = Inr PNone"
  using from_dict_resets_slots [of example_clock example_dict example_world
    "fst (projr (PipelineStatus_from_dict example_clock example_dict example_world))"
    "snd (projr (PipelineStatus_from_dict example_clock example_dict example_world))"
    example_callbacks]
  by (simp add: example_from_dict)

section \<open>The active job\<close>

lemma job_method_name:
  "JobStatus.name (fst (snd (job_method clk c (j, t)))) = JobStatus.name j"
  by (cases c) (simp_all add: JobStatus_start_def JobStatus_fail_def JobStatus_complete_def
      JobStatus_skip_def JobStatus_add_message_def StatusMessage_init_def get_isotime_def)

lemma exec_slots:
  assumes "observers cbs" "\<not> is_add_job c"
  shows "active_job (fst (snd (exec clk cbs c s))) = active_job (fst s) \<and>
         jobs (fst (snd (exec clk cbs c s))) = jobs (fst s)"
proof (cases c)
  case Publish
  then show ?thesis using exec_publish [OF assms(1), of clk s] by simp
next
  case (Add_job n)
  then show ?thesis using assms(2) by simp
qed (auto simp: PipelineStatus_set_publish_callback_def PipelineStatus_add_message_def
      PipelineStatus_start_def PipelineStatus_complete_def PipelineStatus_fail_def
      split: prod.splits sum.splits)

lemma run_slots:
  assumes "observers cbs"
  shows "\<not> list_ex is_add_job cs \<Longrightarrow>
         active_job (fst (run clk cbs cs s)) = active_job (fst s) \<and>
         jobs (fst (run clk cbs cs s)) = jobs (fst s)"
proof (induction cs arbitrary: s)
  case Nil
  then show ?case by simp
next
  case (Cons c cs)
  then have c: "\<not> is_add_job c" and cs: "\<not> list_ex is_add_job cs" by simp_all
  from Cons.IH [OF cs, of "snd (exec clk cbs c s)"] exec_slots [OF assms c, of clk s]
  show ?case by simp
qed

lemma exec_heap_length:
  assumes "observers cbs"
  shows "length (heap w) \<le> length (heap (snd (snd (exec clk cbs c (p, w)))))"
proof (cases c)
  case Publish
  then show ?thesis using exec_publish [OF assms, of clk "(p, w)"] by simp
qed (auto simp: PipelineStatus_set_publish_callback_def PipelineStatus_add_message_def
      PipelineStatus_start_def PipelineStatus_complete_def PipelineStatus_fail_def
      PipelineStatus_add_job_def new_job_def call_job_heap
      split: prod.splits sum.splits)

lemma exec_heap_name:
  assumes "observers cbs" "r < length (heap w)"
  shows "JobStatus.name (heap (snd (snd (exec clk cbs c (p, w)))) ! r) = JobStatus.name (heap w ! r)"
  using exec_heap [OF assms, of clk c p] job_method_name by auto

lemma run_heap:
  assumes "observers cbs"
  shows "r < length (heap (snd s)) \<Longrightarrow>
         r < length (heap (snd (run clk cbs cs s))) \<and>
         JobStatus.name (heap (snd (run clk cbs cs s)) ! r) = JobStatus.name (heap (snd s) ! r)"
proof (induction cs arbitrary: s)
  case Nil
  then show ?case by simp
next
  case (Cons c cs)
  obtain p w where s: "s = (p, w)" by (cases s)
  let ?s' = "snd (exec clk cbs c s)"
  have r: "r < length (heap w)" using Cons.prems s by simp
  have "r < length (heap (snd ?s'))"
    using exec_heap_length [OF assms, of w clk c p] r s by simp
  from Cons.IH [OF this] exec_heap_name [OF assms r, of clk c p] s
  show ?case by simp
qed

lemma run_append: "run clk cbs (xs @ ys) s = run clk cbs ys (run clk cbs xs s)"
  by (induction xs arbitrary: s) simp_all

lemma add_job_result:
  "PipelineStatus_add_job n (p, w) =
     (length (heap w),
      p\<lparr>active_job := Some (length (heap w)), jobs := jobs p @ [length (heap w)]\<rparr>,
      w\<lparr>heap := heap w @ [JobStatus_init n]\<rparr>)"
  by (simp add: PipelineStatus_add_job_def new_job_def)

lemma from_dict_slots:
  "PipelineStatus_from_dict clk d w = Inr (p, w') \<Longrightarrow>
   active_job p = None \<and> publish_callback p = None"
  by (auto simp: PipelineStatus_from_dict_def PipelineStatus_init_def Let_def split: prod.splits)

lemma initial_active_job:
  "s0 = (PipelineStatus_init nm0, w0) \<or> PipelineStatus_from_dict clk d w0 = Inr s0 \<Longrightarrow>
   active_job (fst s0) = None"
  using from_dict_slots [of clk d w0 "fst s0" "snd s0"]
  by (auto simp: PipelineStatus_init_def)

lemma after_add_job:
  assumes "observers cbs" "\<not> list_ex is_add_job cs2"
  shows "(let r = fst (PipelineStatus_add_job n (run clk cbs cs1 s));
              (p, w) = run clk cbs (cs1 @ Add_job n # cs2) s
          in active_job p = Some r \<and> jobs p \<noteq> [] \<and> last (jobs p) = r \<and>
             r < length (heap w) \<and> JobStatus.name (heap w ! r) = n)"
proof -
  obtain p1 w1 where s1: "run clk cbs cs1 s = (p1, w1)" by (cases "run clk cbs cs1 s")
  let ?r = "length (heap w1)"
  let ?s2 = "(p1\<lparr>active_job := Some ?r, jobs := jobs p1 @ [?r]\<rparr>,
              w1\<lparr>heap := heap w1 @ [JobStatus_init n]\<rparr>)"
  have run: "run clk cbs (cs1 @ Add_job n # cs2) s = run clk cbs cs2 ?s2"
    by (simp add: run_append s1 add_job_result)
  obtain p2 w2 where s2: "run clk cbs cs2 ?s2 = (p2, w2)" by (cases "run clk cbs cs2 ?s2")
  have slots: "active_job p2 = Some ?r" "jobs p2 = jobs p1 @ [?r]"
    using run_slots [OF assms, of clk ?s2] s2 by simp_all
  have heap: "?r < length (heap w2)" "JobStatus.name (heap w2 ! ?r) = n"
    using run_heap [OF assms(1), of ?r ?s2 clk cs2] s2 by (simp_all add: JobStatus_init_def)
  have r: "fst (PipelineStatus_add_job n (run clk cbs cs1 s)) = ?r"
    by (simp add: s1 add_job_result)
  show ?thesis
    unfolding Let_def r run s2 using slots heap by simp
qed

lemma before_add_job:
  assumes "observers cbs"
    and "s0 = (PipelineStatus_init nm0, w0) \<or> PipelineStatus_from_dict clk d w0 = Inr s0"
    and "\<not> list_ex is_add_job cs"
  shows "active_job (fst (run clk cbs cs s0)) = None"
proof -
  have "active_job (fst s0) = None" using assms(2) by (rule initial_active_job)
  moreover have "active_job (fst (run clk cbs cs s0)) = active_job (fst s0)"
    using run_slots [OF assms(1) assms(3)] by blast
  ultimately show ?thesis by simp
qed

lemma at_add_job:
  "(let (r, p', w') = PipelineStatus_add_job n' (p, w)
    in active_job p' = Some r \<and> jobs p' = jobs p @ [r] \<and> last (jobs p') = r \<and>
       heap w' ! r = JobStatus_init n' \<and> JobStatus.name (heap w' ! r) = n' \<and>
       JobStatus.state (heap w' ! r) = PStr ''QUEUED'')"
  by (simp add: add_job_result JobStatus_init_def JobState_QUEUED_def)


lemma exec_tracks_last:
  assumes "observers cbs" "tracks_last (fst s)"
  shows "tracks_last (fst (snd (exec clk cbs c s)))"
proof (cases "is_add_job c")
  case True
  then obtain n where c: "c = Add_job n" by (cases c) simp_all
  obtain p w where s: "s = (p, w)" by (cases s)
  show ?thesis by (simp add: c s add_job_result tracks_last_def)
next
  case False
  have "active_job (fst (snd (exec clk cbs c s))) = active_job (fst s)"
    and "jobs (fst (snd (exec clk cbs c s))) = jobs (fst s)"
    using exec_slots [OF assms(1) False, of clk s] by simp_all
  then have "tracks_last (fst (snd (exec clk cbs c s))) = tracks_last (fst s)"
    unfolding tracks_last_def by (simp split: option.splits)
  then show ?thesis using assms(2) by simp
qed

lemma run_tracks_last:
  assumes "observers cbs"
  shows "tracks_last (fst s) \<Longrightarrow> tracks_last (fst (run clk cbs cs s))"
proof (induction cs arbitrary: s)
  case Nil
  then show ?case by simp
next
  case (Cons c cs)
  from Cons.IH [OF exec_tracks_last [OF assms Cons.prems]] show ?case by simp
qed

lemma constructed_tracks_last:
  assumes "observers cbs"
  shows "tracks_last (fst (run clk cbs cs (PipelineStatus_init nm, w)))"
  using run_tracks_last [OF assms, of "(PipelineStatus_init nm, w)" clk cs]
  by (simp add: tracks_last_def PipelineStatus_init_def)

text \<open>
  C2, as the claim states it, fails for a reconstructed pipeline: the pipeline
  reconstructed from the spec's example has a job and no active job.
\<close>

theorem active_job_tracking_counterexample:
  "\<not> isl (PipelineStatus_from_dict example_clock example_dict example_world) \<and>
   jobs (fst (projr (PipelineStatus_from_dict example_clock example_dict example_world))) = [0] \<and>
   JobStatus.name (heap (snd (projr
     (PipelineStatus_from_dict example_clock example_dict example_world))) ! 0) = PStr ''job1'' \<and>
   active_job (fst (projr (PipelineStatus_from_dict example_clock example_dict example_world)))
     = None \<and>
   \<not> tracks_last (fst (projr (PipelineStatus_from_dict example_clock example_dict example_world)))"
  by (simp add: example_from_dict tracks_last_def)

text \<open>
  C2, amended. Take callbacks that only observe. On every PipelineStatus made by the
  constructor and after every sequence of calls, the active job is none exactly when no
  job has been created (jobs is empty), and otherwise it is the most recently created job,
  the same object as the last element of jobs. A reconstructed PipelineStatus has no
  active job, also when its jobs list is not empty, until add_job is first called on it.
  On every PipelineStatus, constructed or reconstructed, and after every sequence of calls
  in which add_job(n) was the last add_job, the active job is the object that add_job
  created: the very reference add_job returned, the last element of jobs, a live object of
  the store, named n. Immediately after add_job(n) on any pipeline, whatever the earlier
  active job and its state, the active job is the same object as the last element of
  jobs, its name is n and its state is QUEUED.
\<close>

theorem active_job_tracking:
  assumes "observers cbs"
  shows
  "tracks_last (fst (run clk cbs cs (PipelineStatus_init nm0, w0))) \<and>
   ((s0 = (PipelineStatus_init nm0, w0) \<or> PipelineStatus_from_dict clk d w0 = Inr s0) \<and>
      \<not> list_ex is_add_job cs \<longrightarrow> active_job (fst (run clk cbs cs s0)) = None) \<and>
   (\<not> list_ex is_add_job cs2 \<longrightarrow>
      (let r = fst (PipelineStatus_add_job n (run clk cbs cs1 s));
           (p, w) = run clk cbs (cs1 @ Add_job n # cs2) s
       in active_job p = Some r \<and> jobs p \<noteq> [] \<and> last (jobs p) = r \<and>
          r < length (heap w) \<and> JobStatus.name (heap w ! r) = n)) \<and>
   (let (r, p', w') = PipelineStatus_add_job n' (p, w)
    in active_job p' = Some r \<and> jobs p' = jobs p @ [r] \<and> last (jobs p') = r \<and>
       heap w' ! r = JobStatus_init n' \<and> JobStatus.name (heap w' ! r) = n' \<and>
       JobStatus.state (heap w' ! r) = PStr ''QUEUED'')"
proof -
  have 0: "tracks_last (fst (run clk cbs cs (PipelineStatus_init nm0, w0)))"
    by (rule constructed_tracks_last [OF assms])
  have 1: "(s0 = (PipelineStatus_init nm0, w0) \<or> PipelineStatus_from_dict clk d w0 = Inr s0) \<and>
      \<not> list_ex is_add_job cs \<longrightarrow> active_job (fst (run clk cbs cs s0)) = None"
    using before_add_job [OF assms, of s0 nm0 w0 clk d cs] by fast
  have 2: "\<not> list_ex is_add_job cs2 \<longrightarrow>
      (let r = fst (PipelineStatus_add_job n (run clk cbs cs1 s));
           (p, w) = run clk cbs (cs1 @ Add_job n # cs2) s
       in active_job p = Some r \<and> jobs p \<noteq> [] \<and> last (jobs p) = r \<and>
          r < length (heap w) \<and> JobStatus.name (heap w ! r) = n)"
    using after_add_job [OF assms, of cs2 n clk cs1 s] by (rule impI)
  from 0 1 2 at_add_job [of n' p w] show ?thesis by (intro conjI)
qed

theorem active_job_tracking_witness:
  "observers quiet_callbacks \<and>
   tracks_last (fst (run example_clock quiet_callbacks [Start None, Publish]
     (PipelineStatus_init (PStr ''demo''), example_world))) \<and>
   jobs (fst (run example_clock quiet_callbacks [Start None, Publish]
     (PipelineStatus_init (PStr ''demo''), example_world))) = [] \<and>
   \<not> list_ex is_add_job [Start None, Publish] \<and>
   active_job (fst (run example_clock quiet_callbacks [Start None, Publish]
     (PipelineStatus_init (PStr ''demo''), example_world))) = None \<and>
   \<not> isl (PipelineStatus_from_dict example_clock example_dict example_world) \<and>
   jobs (fst (projr (PipelineStatus_from_dict example_clock example_dict example_world))) = [0] \<and>
   active_job (fst (run example_clock quiet_callbacks [Start None, Publish]
     (projr (PipelineStatus_from_dict example_clock example_dict example_world)))) = None \<and>
   \<not> list_ex is_add_job [On_job Active_job (Job_start None), Fail None] \<and>
   (let (p, w) = run example_clock quiet_callbacks
        ([Start None, Add_job (PStr ''job1''), On_job Active_job (Job_fail None)] @
         Add_job (PStr ''job2'') # [On_job Active_job (Job_start None), Fail None])
        (PipelineStatus_init (PStr ''demo''), example_world)
    in active_job p = Some 1 \<and> jobs p = [0, 1] \<and> last (jobs p) = 1 \<and>
       JobStatus.name (heap w ! 1) = PStr ''job2'' \<and>
       JobStatus.state (heap w ! 1) = PStr ''RUNNING'' \<and>
       JobStatus.state (heap w ! 0) = PStr ''FAILED'')"
  using active_job_tracking [where cbs = quiet_callbacks
      and ?s0.0 = "(PipelineStatus_init (PStr ''demo''), example_world)"
      and ?nm0.0 = "PStr ''demo''" and ?w0.0 = example_world and clk = example_clock
      and d = example_dict and cs = "[Start None, Publish]"
      and ?cs2.0 = "[On_job Active_job (Job_start None), Fail None]" and n = "PStr ''job2''"
      and ?cs1.0 = "[Start None, Add_job (PStr ''job1''), On_job Active_job (Job_fail None)]"
      and s = "(PipelineStatus_init (PStr ''demo''), example_world)"
      and n' = "PStr ''job2''" and p = "PipelineStatus_init (PStr ''demo'')" and w = example_world]
    active_job_tracking [where cbs = quiet_callbacks
      and ?s0.0 = "projr (PipelineStatus_from_dict example_clock example_dict example_world)"
      and ?nm0.0 = "PStr ''demo''" and ?w0.0 = example_world and clk = example_clock
      and d = example_dict and cs = "[Start None, Publish]"
      and ?cs2.0 = "[On_job Active_job (Job_start None), Fail None]" and n = "PStr ''job2''"
      and ?cs1.0 = "[Start None, Add_job (PStr ''job1''), On_job Active_job (Job_fail None)]"
      and s = "(PipelineStatus_init (PStr ''demo''), example_world)"
      and n' = "PStr ''job2''" and p = "PipelineStatus_init (PStr ''demo'')" and w = example_world]
    quiet_observers
  by (simp add: example_from_dict [unfolded example_world_def] example_world_def
      PipelineStatus_init_def
      PipelineStatus_start_def PipelineStatus_fail_def PipelineStatus_add_message_def
      PipelineStatus_add_job_def PipelineStatus_publish_def new_job_def
      call_job_def JobStatus_init_def JobStatus_start_def JobStatus_fail_def
      JobStatus_add_message_def StatusMessage_init_def get_isotime_def state_defs)

section \<open>The round trip\<close>

lemma projection_keys:
  "keys (StatusMessage_serialize m) = StatusMessage_attributes"
  "keys (JobStatus_serialize j) = JobStatus_attributes"
  "keys (PipelineStatus_serialize s) = PipelineStatus_attributes"
  by (simp_all add: StatusMessage_serialize_def StatusMessage_attributes_def
      JobStatus_serialize_def JobStatus_attributes_def PipelineStatus_serialize_def
      PipelineStatus_attributes_def split: prod.splits)

lemma StatusMessage_round_trip:
  "StatusMessage_ok m \<Longrightarrow>
   StatusMessage_from_dict clk (StatusMessage_serialize m) t = Inr (m, t)"
  by (simp add: StatusMessage_ok_def StatusMessage_from_dict_def StatusMessage_serialize_def
      StatusMessage_init_def)

lemma StatusMessage_from_dicts_round_trip:
  "list_all StatusMessage_ok ms \<Longrightarrow>
   StatusMessage_from_dicts clk (map StatusMessage_serialize ms) t = Inr (ms, t)"
  by (induction ms) (simp_all add: StatusMessage_round_trip)

lemma JobStatus_round_trip:
  "JobStatus_ok j \<Longrightarrow> JobStatus_from_dict clk (JobStatus_serialize j) t = Inr (j, t)"
  by (simp add: JobStatus_ok_def JobStatus_from_dict_def JobStatus_serialize_def
      JobStatus_init_def StatusMessage_from_dicts_round_trip)

lemma upt_first: "[n..<n + Suc k] = n # [Suc n..<Suc n + k]"
  by (simp add: upt_conv_Cons)

lemma JobStatus_from_dicts_round_trip:
  "list_all JobStatus_ok js \<Longrightarrow>
   JobStatus_from_dicts clk (map JobStatus_serialize js) w =
     Inr ([length (heap w)..<length (heap w) + length js], w\<lparr>heap := heap w @ js\<rparr>)"
proof (induction js arbitrary: w)
  case Nil
  then show ?case by simp
next
  case (Cons j js)
  then have j: "JobStatus_ok j" and js: "list_all JobStatus_ok js" by simp_all
  have "[length (heap w)..<length (heap w) + length (j # js)] =
      length (heap w) # [Suc (length (heap w))..<Suc (length (heap w)) + length js]"
    using upt_first [of "length (heap w)" "length js"] by simp
  then show ?case
    using Cons.IH [OF js, of "\<lparr>heap = heap w @ [j], ticks = ticks w\<rparr>"]
    by (simp add: JobStatus_round_trip [OF j] new_job_def del: upt_Suc)
qed

lemma nth_fresh: "map (\<lambda>r. (h @ js) ! r) [length h..<length h + length js] = js"
  by (rule nth_equalityI) (simp_all add: nth_append)

lemma PipelineStatus_reconstruct:
  assumes "system_ok (p, w)"
  shows "PipelineStatus_from_dict clk (PipelineStatus_serialize (p, w)) w' =
     Inr (p\<lparr>jobs := [length (heap w')..<length (heap w') + length (jobs p)],
            publish_callback := None, active_job := None\<rparr>,
          w'\<lparr>heap := heap w' @ map (\<lambda>r. heap w ! r) (jobs p)\<rparr>)"
proof -
  have ms: "list_all StatusMessage_ok (PipelineStatus.messages p)"
    and js: "list_all JobStatus_ok (map (\<lambda>r. heap w ! r) (jobs p))"
    using assms by (simp_all add: system_ok_def list_all_iff)
  have "JobStatus_from_dicts clk (map JobStatus_serialize (map (\<lambda>r. heap w ! r) (jobs p)))
          (w'\<lparr>ticks := ticks w'\<rparr>) =
        Inr ([length (heap w')..<length (heap w') + length (jobs p)],
             w'\<lparr>heap := heap w' @ map (\<lambda>r. heap w ! r) (jobs p)\<rparr>)"
    using JobStatus_from_dicts_round_trip [OF js, of clk "w'\<lparr>ticks := ticks w'\<rparr>"] by simp
  then show ?thesis
    by (simp add: PipelineStatus_from_dict_def PipelineStatus_serialize_def
        PipelineStatus_init_def StatusMessage_from_dicts_round_trip [OF ms] comp_def)
qed

lemma PipelineStatus_round_trip:
  assumes "system_ok s"
  shows "case PipelineStatus_from_dict clk (PipelineStatus_serialize s) w' of
           Inl e \<Rightarrow> False
         | Inr s' \<Rightarrow> structurally_equal s s' \<and>
                     PipelineStatus_serialize s' = PipelineStatus_serialize s"
proof -
  obtain p w where s: "s = (p, w)" by (cases s)
  have fresh: "map (\<lambda>r. (heap w' @ map (\<lambda>r. heap w ! r) (jobs p)) ! r)
      [length (heap w')..<length (heap w') + length (jobs p)] = map (\<lambda>r. heap w ! r) (jobs p)"
    using nth_fresh [of "heap w'" "map (\<lambda>r. heap w ! r) (jobs p)"] by simp
  have "map (\<lambda>r. JobStatus_serialize ((heap w' @ map (\<lambda>r. heap w ! r) (jobs p)) ! r))
      [length (heap w')..<length (heap w') + length (jobs p)]
      = map JobStatus_serialize (map (\<lambda>r. heap w ! r) (jobs p))"
    using arg_cong [OF fresh, of "map JobStatus_serialize"] by (simp add: comp_def)
  then have ser: "map (\<lambda>r. JobStatus_serialize ((heap w' @ map (\<lambda>r. heap w ! r) (jobs p)) ! r))
      [length (heap w')..<length (heap w') + length (jobs p)]
      = map (\<lambda>r. JobStatus_serialize (heap w ! r)) (jobs p)"
    by (simp add: comp_def)
  let ?s' = "(p\<lparr>jobs := [length (heap w')..<length (heap w') + length (jobs p)],
            publish_callback := None, active_job := None\<rparr>,
          w'\<lparr>heap := heap w' @ map (\<lambda>r. heap w ! r) (jobs p)\<rparr>)"
  have rec: "PipelineStatus_from_dict clk (PipelineStatus_serialize s) w' = Inr ?s'"
    using PipelineStatus_reconstruct [of p w clk w'] assms by (simp add: s)
  have eq: "structurally_equal s ?s'"
    using fresh by (simp add: s structurally_equal_def)
  have "PipelineStatus_serialize ?s' = PipelineStatus_serialize s"
    using ser by (simp add: s PipelineStatus_serialize_def)
  with eq show ?thesis unfolding rec by simp
qed

lemma StatusMessage_init_ok:
  "clock_text clk \<Longrightarrow> StatusMessage_ok (fst (StatusMessage_init clk msg tm t))"
  by (simp add: clock_text_def StatusMessage_ok_def StatusMessage_init_def get_isotime_def)

lemma StatusMessage_from_dict_ok:
  "clock_text clk \<Longrightarrow> StatusMessage_from_dict clk d t = Inr (m, t') \<Longrightarrow> StatusMessage_ok m"
proof -
  assume clk: "clock_text clk" and "StatusMessage_from_dict clk d t = Inr (m, t')"
  then obtain msg tm where "StatusMessage_init clk msg tm t = (m, t')"
    by (auto simp: StatusMessage_from_dict_def)
  then have "m = fst (StatusMessage_init clk msg tm t)" by simp
  then show ?thesis using StatusMessage_init_ok [OF clk] by simp
qed

lemma StatusMessage_from_dicts_ok:
  assumes "clock_text clk"
  shows "StatusMessage_from_dicts clk ds t = Inr (ms, t') \<Longrightarrow> list_all StatusMessage_ok ms"
proof (induction ds arbitrary: t ms)
  case Nil
  then show ?case by simp
next
  case (Cons d ds)
  then obtain m t1 ms' where m: "StatusMessage_from_dict clk d t = Inr (m, t1)"
    and rest: "StatusMessage_from_dicts clk ds t1 = Inr (ms', t')" and ms: "ms = m # ms'"
    by (auto split: prod.splits)
  show ?case
    using StatusMessage_from_dict_ok [OF assms m] Cons.IH [OF rest] ms by simp
qed

lemma JobStatus_from_dict_ok:
  assumes "clock_text clk" "JobStatus_from_dict clk d t = Inr (j, t')"
  shows "JobStatus_ok j"
  using assms(2) StatusMessage_from_dicts_ok [OF assms(1)]
  by (auto simp: JobStatus_from_dict_def JobStatus_ok_def Let_def split: prod.splits)

lemma job_method_ok:
  assumes "clock_text clk" "JobStatus_ok j"
  shows "JobStatus_ok (fst (snd (job_method clk c (j, t))))"
  using assms
  by (cases c) (simp_all add: JobStatus_ok_def StatusMessage_ok_def clock_text_def
      JobStatus_start_def JobStatus_fail_def JobStatus_complete_def
      JobStatus_skip_def JobStatus_add_message_def StatusMessage_init_def get_isotime_def)

lemma run_job_ok:
  assumes "clock_text clk"
  shows "JobStatus_ok (fst s) \<Longrightarrow> JobStatus_ok (fst (run_job clk cs s))"
proof (induction cs arbitrary: s)
  case Nil
  then show ?case by simp
next
  case (Cons c cs)
  obtain j t where s: "s = (j, t)" by (cases s)
  have "JobStatus_ok (fst (snd (job_method clk c s)))"
    using job_method_ok [OF assms, of j c t] Cons.prems s by simp
  from Cons.IH [OF this] show ?case by simp
qed

lemma JobStatus_from_dicts_ok:
  assumes "clock_text clk"
  shows "JobStatus_from_dicts clk ds w = Inr (rs, w') \<Longrightarrow>
     length (heap w) \<le> length (heap w') \<and>
     take (length (heap w)) (heap w') = heap w \<and>
     list_all (\<lambda>r. r < length (heap w') \<and> JobStatus_ok (heap w' ! r)) rs"
proof (induction ds arbitrary: w rs)
  case Nil
  then show ?case by simp
next
  case (Cons d ds)
  then obtain j t1 rs' where j: "JobStatus_from_dict clk d (ticks w) = Inr (j, t1)"
    and rest: "JobStatus_from_dicts clk ds \<lparr>heap = heap w @ [j], ticks = t1\<rparr> = Inr (rs', w')"
    and rs: "rs = length (heap w) # rs'"
    by (auto simp: new_job_def split: prod.splits)
  have ok: "JobStatus_ok j" using JobStatus_from_dict_ok [OF assms j] .
  from Cons.IH [OF rest]
  have len: "Suc (length (heap w)) \<le> length (heap w')"
    and tk: "take (Suc (length (heap w))) (heap w') = heap w @ [j]"
    and all: "list_all (\<lambda>r. r < length (heap w') \<and> JobStatus_ok (heap w' ! r)) rs'"
    by simp_all
  have "take (length (heap w)) (take (Suc (length (heap w))) (heap w')) = heap w"
    unfolding tk by simp
  then have tk': "take (length (heap w)) (heap w') = heap w" by (simp add: min_def)
  have "heap w' ! length (heap w) = take (Suc (length (heap w))) (heap w') ! length (heap w)"
    by simp
  then have "heap w' ! length (heap w) = j" unfolding tk by simp
  then show ?case using len tk' all ok rs by simp
qed

lemma PipelineStatus_from_dict_ok:
  assumes "clock_text clk" "PipelineStatus_from_dict clk d w = Inr s"
  shows "system_ok s"
  using assms(2) StatusMessage_from_dicts_ok [OF assms(1)] JobStatus_from_dicts_ok [OF assms(1)]
  by (auto simp: PipelineStatus_from_dict_def system_ok_def Let_def split: prod.splits)

lemma PipelineStatus_init_ok: "system_ok (PipelineStatus_init nm, w)"
  by (simp add: system_ok_def PipelineStatus_init_def)

lemma add_message_ok:
  assumes "clock_text clk" "system_ok s"
  shows "system_ok (snd (PipelineStatus_add_message clk m s))"
  using assms
  by (cases s) (simp add: system_ok_def PipelineStatus_add_message_def StatusMessage_init_def
      get_isotime_def StatusMessage_ok_def clock_text_def)

lemma add_job_ok:
  assumes "system_ok s"
  shows "system_ok (snd (PipelineStatus_add_job n s))"
proof -
  obtain p w where s: "s = (p, w)" by (cases s)
  have old: "list_all (\<lambda>r. r < length (heap w) \<and> JobStatus_ok (heap w ! r)) (jobs p)"
    and ms: "list_all StatusMessage_ok (PipelineStatus.messages p)"
    using assms by (simp_all add: s system_ok_def)
  have "list_all (\<lambda>r. r < Suc (length (heap w)) \<and>
          JobStatus_ok ((heap w @ [JobStatus_init n]) ! r)) (jobs p)"
    using old by (auto simp: list_all_iff nth_append)
  moreover have "JobStatus_ok (JobStatus_init n)"
    by (simp add: JobStatus_ok_def JobStatus_init_def)
  ultimately show ?thesis
    using ms by (simp add: s system_ok_def PipelineStatus_add_job_def new_job_def)
qed

lemma on_job_ok:
  assumes "clock_text clk" "system_ok (p, w)"
  shows "system_ok (p, snd (call_job (job_method clk c) r' w))"
proof -
  have old: "list_all (\<lambda>r. r < length (heap w) \<and> JobStatus_ok (heap w ! r)) (jobs p)"
    and ms: "list_all StatusMessage_ok (PipelineStatus.messages p)"
    using assms(2) by (simp_all add: system_ok_def)
  let ?j = "fst (snd (job_method clk c (heap w ! r', ticks w)))"
  have "r < length (heap w) \<and> JobStatus_ok ((heap w)[r' := ?j] ! r)" if r: "r \<in> set (jobs p)" for r
  proof -
    have lt: "r < length (heap w)" and ok: "JobStatus_ok (heap w ! r)"
      using old r by (simp_all add: list_all_iff)
    show ?thesis
    proof (cases "r = r'")
      case True
      then show ?thesis
        using lt ok job_method_ok [OF assms(1), of "heap w ! r'" c "ticks w"] by simp
    next
      case False
      then show ?thesis using lt ok by simp
    qed
  qed
  then have "list_all (\<lambda>r. r < length (heap w) \<and> JobStatus_ok ((heap w)[r' := ?j] ! r)) (jobs p)"
    by (simp add: list_all_iff)
  then show ?thesis
    using ms by (simp add: system_ok_def call_job_heap)
qed

lemma exec_ok:
  assumes "clock_text clk" "observers cbs" "system_ok s"
  shows "system_ok (snd (exec clk cbs c s))"
proof (cases c)
  case (Set_publish_callback cb)
  then show ?thesis using assms(3)
    by (cases s) (simp add: system_ok_def PipelineStatus_set_publish_callback_def)
next
  case Publish
  then show ?thesis using exec_publish [OF assms(2), of clk s] assms(3) by simp
next
  case (Add_job n)
  then show ?thesis using add_job_ok [OF assms(3)] by simp
next
  case (Add_message m)
  then show ?thesis using add_message_ok [OF assms(1,3)] by simp
next
  case (Start m)
  then show ?thesis
    using add_message_ok [OF assms(1,3), of "arg_or m (PStr ''Pipeline started'')"]
    by (cases s) (auto simp: PipelineStatus_start_def system_ok_def split: prod.splits)
next
  case (Complete m)
  then show ?thesis
    using add_message_ok [OF assms(1,3), of "arg_or m (PStr ''Pipeline completed'')"]
    by (cases s) (auto simp: PipelineStatus_complete_def system_ok_def split: prod.splits)
next
  case (Fail m)
  then show ?thesis
    using add_message_ok [OF assms(1,3), of "arg_or m (PStr ''Pipeline failed'')"]
    by (cases s) (auto simp: PipelineStatus_fail_def system_ok_def split: prod.splits)
next
  case (On_job e jc)
  obtain p w where s: "s = (p, w)" by (cases s)
  show ?thesis
  proof (cases "eval_job_expr e p")
    case (Inl err)
    then show ?thesis using On_job assms(3) s by simp
  next
    case (Inr r')
    then show ?thesis using On_job on_job_ok [OF assms(1), of p w jc r'] assms(3) s by simp
  qed
qed

lemma run_ok:
  assumes "clock_text clk" "observers cbs"
  shows "system_ok s \<Longrightarrow> system_ok (run clk cbs cs s)"
proof (induction cs arbitrary: s)
  case Nil
  then show ?case by simp
next
  case (Cons c cs)
  from Cons.IH [OF exec_ok [OF assms Cons.prems]] show ?case by simp
qed

lemma example_clock_text: "clock_text example_clock"
  by (simp add: clock_text_def example_clock_def)

lemma example_system_eq:
  "example_system =
   (\<lparr>PipelineStatus.name = PStr ''demo'', state = PStr ''COMPLETE'',
     start_time = PStr ''2024-01-01T00:00:00'',
     complete_time = PStr ''2024-01-01T00:00:00'', fail_time = PNone,
     messages =
       [\<lparr>message = PStr ''Pipeline started'', time = PStr ''2024-01-01T00:00:00''\<rparr>,
        \<lparr>message = PStr ''Pipeline completed'', time = PStr ''2024-01-01T00:00:00''\<rparr>],
     jobs = [0], publish_callback = None, active_job = Some 0\<rparr>,
  \<lparr>heap =
     [\<lparr>JobStatus.name = PStr ''job1'', state = PStr ''COMPLETE'',
         start_time = PStr ''2024-01-01T00:00:00'',
         complete_time = PStr ''2024-01-01T00:00:00'', fail_time = PNone,
         messages =
           [\<lparr>message = PStr ''Job started'', time = PStr ''2024-01-01T00:00:00''\<rparr>,
            \<lparr>message = PStr ''Job completed'', time = PStr ''2024-01-01T00:00:00''\<rparr>]\<rparr>],
     ticks = 4\<rparr>)"
  by (simp add: example_system_def example_calls_def example_world_def PipelineStatus_init_def
      PipelineStatus_start_def PipelineStatus_complete_def PipelineStatus_add_message_def
      PipelineStatus_add_job_def new_job_def call_job_def JobStatus_init_def
      JobStatus_start_def JobStatus_complete_def JobStatus_add_message_def
      StatusMessage_init_def get_isotime_def example_clock_def state_defs numeral_eq_Suc)


text \<open>
  C1. The clock's text is never empty and callbacks only observe. Every StatusMessage that
  the constructor produced, and every JobStatus that was constructed or reconstructed and
  then taken through any calls, is reconstructed from its projection as an equal instance,
  whose projection is therefore the original one. Every PipelineStatus that was
  constructed or reconstructed and then taken through any calls is reconstructed from its
  projection, in any world and by any clock, as a structurally equal instance: it agrees
  on every attribute of the projection (name, state, the three timestamps, messages, and
  the jobs compared field by field), and the projection of the reconstruction is the
  original projection. Unset timestamps and empty logs are included: the call sequences
  may be empty.
\<close>

theorem round_trip:
  assumes "clock_text clk" "observers cbs"
  shows
   "(let m = fst (StatusMessage_init clk msg tm t) in
       StatusMessage_from_dict clk' (StatusMessage_serialize m) t' = Inr (m, t')) \<and>
    ((j0 = JobStatus_init nm \<or> JobStatus_from_dict clk d t0 = Inr (j0, t1)) \<longrightarrow>
       (let j = fst (run_job clk jcs (j0, t1)) in
          JobStatus_from_dict clk' (JobStatus_serialize j) t' = Inr (j, t'))) \<and>
    ((s0 = (PipelineStatus_init nm', w0) \<or> PipelineStatus_from_dict clk d' w0 = Inr s0) \<longrightarrow>
       (let s = run clk cbs cs s0 in
          case PipelineStatus_from_dict clk' (PipelineStatus_serialize s) w' of
            Inl e \<Rightarrow> False
          | Inr s' \<Rightarrow> structurally_equal s s' \<and>
                      PipelineStatus_serialize s' = PipelineStatus_serialize s))"
proof (intro conjI impI)
  show "let m = fst (StatusMessage_init clk msg tm t) in
       StatusMessage_from_dict clk' (StatusMessage_serialize m) t' = Inr (m, t')"
    using StatusMessage_round_trip [OF StatusMessage_init_ok [OF assms(1)]] by simp
next
  assume "j0 = JobStatus_init nm \<or> JobStatus_from_dict clk d t0 = Inr (j0, t1)"
  then have "JobStatus_ok j0"
  proof
    assume "j0 = JobStatus_init nm"
    then show ?thesis by (simp add: JobStatus_ok_def JobStatus_init_def)
  next
    assume "JobStatus_from_dict clk d t0 = Inr (j0, t1)"
    then show ?thesis using JobStatus_from_dict_ok [OF assms(1)] by blast
  qed
  then have "JobStatus_ok (fst (run_job clk jcs (j0, t1)))"
    using run_job_ok [OF assms(1), of "(j0, t1)" jcs] by simp
  then show "let j = fst (run_job clk jcs (j0, t1)) in
          JobStatus_from_dict clk' (JobStatus_serialize j) t' = Inr (j, t')"
    using JobStatus_round_trip by simp
next
  assume "s0 = (PipelineStatus_init nm', w0) \<or> PipelineStatus_from_dict clk d' w0 = Inr s0"
  then have "system_ok s0"
  proof
    assume "s0 = (PipelineStatus_init nm', w0)"
    then show ?thesis using PipelineStatus_init_ok by simp
  next
    assume "PipelineStatus_from_dict clk d' w0 = Inr s0"
    then show ?thesis using PipelineStatus_from_dict_ok [OF assms(1)] by blast
  qed
  then have "system_ok (run clk cbs cs s0)" by (rule run_ok [OF assms])
  then show "let s = run clk cbs cs s0 in
          case PipelineStatus_from_dict clk' (PipelineStatus_serialize s) w' of
            Inl e \<Rightarrow> False
          | Inr s' \<Rightarrow> structurally_equal s s' \<and>
                      PipelineStatus_serialize s' = PipelineStatus_serialize s"
    using PipelineStatus_round_trip [of "run clk cbs cs s0" clk' w'] by simp
qed



theorem round_trip_witness:
  "clock_text example_clock \<and> observers quiet_callbacks \<and>
   StatusMessage_from_dict example_clock
     (StatusMessage_serialize (fst (StatusMessage_init example_clock (PStr ''hello'') PNone 0))) 0
     = Inr (fst (StatusMessage_init example_clock (PStr ''hello'') PNone 0), 0) \<and>
   JobStatus.state example_job = PStr ''COMPLETE'' \<and>
   JobStatus_from_dict example_clock (JobStatus_serialize example_job) 0 = Inr (example_job, 0) \<and>
   active_job (fst example_system) = Some 0 \<and>
   (case PipelineStatus_from_dict example_clock (PipelineStatus_serialize example_system)
           (snd example_system) of
      Inl e \<Rightarrow> False
    | Inr s' \<Rightarrow> structurally_equal example_system s' \<and>
                PipelineStatus_serialize s' = PipelineStatus_serialize example_system)"
proof -
  note rt = round_trip [OF example_clock_text quiet_observers,
      where msg = "PStr ''hello''" and tm = PNone and t = 0 and clk' = example_clock and t' = 0
        and ?j0.0 = "JobStatus_init (PStr ''job1'')" and nm = "PStr ''job1''"
        and ?t1.0 = 0 and jcs = "[Job_start None, Job_complete None]"
        and ?s0.0 = "(PipelineStatus_init (PStr ''demo''), example_world)"
        and nm' = "PStr ''demo''" and ?w0.0 = example_world and cs = example_calls
        and w' = "snd example_system"]
  have job: "JobStatus.state example_job = PStr ''COMPLETE''"
    by (simp add: example_job_def JobStatus_init_def JobStatus_start_def JobStatus_complete_def
        JobStatus_add_message_def StatusMessage_init_def get_isotime_def state_defs)
  have act: "active_job (fst example_system) = Some 0"
    by (simp add: example_system_eq)
  show ?thesis
    using rt [unfolded Let_def, folded example_system_def example_job_def]
      job act example_clock_text quiet_observers
    by simp
qed

end
